theory Spec2Isabelle
  imports Main "HOL-Library.Sublist"
begin

section \<open>The std::format compatibility shim (std_format_compat.h)\<close>

text \<open>
  The header defines two overloads of \<^verbatim>\<open>std::format\<close>:
  \<^verbatim>\<open>format(const char* fmt)\<close>, which copies the template, and
  \<^verbatim>\<open>format(const char* fmt, const T& value)\<close>, which streams the value into a
  \<^verbatim>\<open>std::ostringstream\<close>, looks for the first \<^verbatim>\<open>{}\<close> with
  \<^verbatim>\<open>std::string::find\<close> and either replaces these two characters with
  \<^verbatim>\<open>std::string::replace\<close> or appends the text.

  A template is modelled by the characters of the NUL-terminated array that \<^verbatim>\<open>fmt\<close>
  points to, a \<^typ>\<open>string\<close>; \<^verbatim>\<open>std::string s(fmt)\<close> is then the same list. Positions
  are natural numbers and \<^verbatim>\<open>std::string::npos\<close> is \<^term>\<open>None\<close>. Storage is unbounded:
  \<^verbatim>\<open>std::bad_alloc\<close> and \<^verbatim>\<open>std::length_error\<close> have no counterpart here.
\<close>

subsection \<open>The library calls the header makes\<close>

text \<open>The exception \<^verbatim>\<open>std::out_of_range\<close> of \<^verbatim>\<open>std::string::replace\<close>.\<close>

datatype error = OutOfRange

text \<open>
  \<^verbatim>\<open>s.find(pat)\<close>: the lowest position at which \<^verbatim>\<open>pat\<close> occurs in \<^verbatim>\<open>s\<close>,
  or \<^verbatim>\<open>npos\<close>.
\<close>

fun find_str :: "string \<Rightarrow> string \<Rightarrow> nat option" where
  "find_str [] pat = (if pat = [] then Some 0 else None)"
| "find_str (c # cs) pat =
     (if prefix pat (c # cs) then Some 0 else map_option Suc (find_str cs pat))"

text \<open>
  \<^verbatim>\<open>s.replace(pos, n, val)\<close>: throws \<^verbatim>\<open>out_of_range\<close> when \<^verbatim>\<open>pos > s.size()\<close>;
  otherwise the \<^verbatim>\<open>min(n, s.size() - pos)\<close> characters from \<^verbatim>\<open>pos\<close> on give way to
  \<^verbatim>\<open>val\<close>.
\<close>

definition replace_str :: "string \<Rightarrow> nat \<Rightarrow> nat \<Rightarrow> string \<Rightarrow> error + string" where
  "replace_str s pos n val =
     (if length s < pos then Inl OutOfRange
      else Inr (take pos s @ val @ drop (pos + min n (length s - pos)) s))"

text \<open>
  \<^verbatim>\<open>oss << value\<close> on a fresh \<^verbatim>\<open>std::ostringstream\<close> depends on the type \<^verbatim>\<open>T\<close>
  of the value. The two-argument overload therefore takes the conversion of \<^verbatim>\<open>T\<close> as a
  parameter \<open>text\<close>. Two conversions are written out: a signed integer prints its decimal
  digits, most significant first, after a minus sign when it is negative; a
  \<^verbatim>\<open>std::string\<close> prints its characters as they are.
\<close>

fun digits :: "nat \<Rightarrow> string" where
  "digits n =
     (if n < 10 then [''0123456789'' ! n]
      else digits (n div 10) @ [''0123456789'' ! (n mod 10)])"

declare digits.simps [simp del]

definition text_int :: "int \<Rightarrow> string" where
  "text_int i = (if i < 0 then CHR ''-'' # digits (nat (- i)) else digits (nat i))"

definition text_string :: "string \<Rightarrow> string" where
  "text_string s = s"

subsection \<open>The two overloads\<close>

text \<open>\<^verbatim>\<open>inline std::string format(const char* fmt) { return std::string(fmt); }\<close>\<close>

definition format :: "string \<Rightarrow> string" where
  "format fmt = fmt"

text \<open>
  \<^verbatim>\<open>template <typename T> inline std::string format(const char* fmt, const T& value)\<close>.
  The result is \<^term>\<open>Inr\<close> of the returned string, or \<^term>\<open>Inl\<close> of the exception that
  \<^verbatim>\<open>replace\<close> lets escape.
\<close>

definition format_arg :: "('a \<Rightarrow> string) \<Rightarrow> string \<Rightarrow> 'a \<Rightarrow> error + string" where
  "format_arg text fmt v =
     (let s = fmt;
          val = text v
      in case find_str s ''{}'' of
           Some pos \<Rightarrow> replace_str s pos 2 val
         | None \<Rightarrow> Inr (s @ val))"

subsection \<open>Occurrences of the placeholder\<close>

text \<open>
  A template contains the placeholder when some character \<^verbatim>\<open>{\<close> is followed at once by
  \<^verbatim>\<open>}\<close>. \<open>occurrences\<close> counts the positions where this happens.
\<close>

fun has_placeholder :: "string \<Rightarrow> bool" where
  "has_placeholder (c # d # r) =
     ((c = CHR ''{'' \<and> d = CHR ''}'') \<or> has_placeholder (d # r))"
| "has_placeholder _ = False"

fun occurrences :: "string \<Rightarrow> nat" where
  "occurrences (c # d # r) =
     (if c = CHR ''{'' \<and> d = CHR ''}'' then 1 else 0) + occurrences (d # r)"
| "occurrences _ = 0"

section \<open>Properties\<close>

subsection \<open>The placeholder predicate\<close>

lemma has_placeholder_append_token: "has_placeholder (A @ ''{}'' @ B)"
  by (induction A rule: has_placeholder.induct) auto

lemma has_placeholder_split:
  "has_placeholder t \<Longrightarrow> \<exists>A B. t = A @ ''{}'' @ B \<and> \<not> has_placeholder A"
proof (induction t rule: has_placeholder.induct)
  case (1 c d r)
  show ?case
  proof (cases "c = CHR ''{'' \<and> d = CHR ''}''")
    case True
    then have "c # d # r = [] @ ''{}'' @ r \<and> \<not> has_placeholder []" by simp
    then show ?thesis by blast
  next
    case False
    with 1 obtain A B where AB: "d # r = A @ ''{}'' @ B" "\<not> has_placeholder A"
      by auto
    have "\<not> has_placeholder (c # A)"
    proof (cases A)
      case Nil
      then show ?thesis by simp
    next
      case (Cons a A')
      with AB have "a = d" by simp
      with Cons AB False show ?thesis
        by (cases A') auto
    qed
    moreover from AB have "c # d # r = (c # A) @ ''{}'' @ B" by simp
    ultimately show ?thesis by blast
  qed
qed simp_all

lemma has_placeholder_iff: "has_placeholder t \<longleftrightarrow> (\<exists>A B. t = A @ ''{}'' @ B)"
  using has_placeholder_split has_placeholder_append_token by blast

lemma has_placeholder_index:
  "has_placeholder t \<longleftrightarrow>
     (\<exists>i. Suc i < length t \<and> t ! i = CHR ''{'' \<and> t ! Suc i = CHR ''}'')"
proof (induction t rule: has_placeholder.induct)
  case (1 c d r)
  let ?P = "\<lambda>xs i. Suc i < length xs \<and> xs ! i = CHR ''{'' \<and> xs ! Suc i = CHR ''}''"
  have "(\<exists>i. ?P (c # d # r) i) \<longleftrightarrow> ?P (c # d # r) 0 \<or> (\<exists>j. ?P (c # d # r) (Suc j))"
    by (metis not0_implies_Suc)
  also have "\<dots> \<longleftrightarrow> (c = CHR ''{'' \<and> d = CHR ''}'') \<or> (\<exists>j. ?P (d # r) j)"
    by simp
  finally show ?case
    using 1 by simp
qed simp_all

lemma occurrences_pos_iff: "0 < occurrences t \<longleftrightarrow> has_placeholder t"
  by (induction t rule: occurrences.induct) auto

lemma occurrences_close_brace: "occurrences (CHR ''}'' # B) = occurrences B"
  by (cases B) simp_all

lemma occurrences_first:
  "\<not> has_placeholder A \<Longrightarrow> occurrences (A @ ''{}'' @ B) = Suc (occurrences B)"
proof (induction A rule: has_placeholder.induct)
  case (1 c d r)
  then show ?case by simp
qed (simp_all add: occurrences_close_brace)

subsection \<open>What find returns for the placeholder\<close>

lemma find_str_absent: "\<not> has_placeholder t \<Longrightarrow> find_str t ''{}'' = None"
  by (induction t rule: has_placeholder.induct) auto

lemma find_str_first:
  "\<not> has_placeholder A \<Longrightarrow> find_str (A @ ''{}'' @ B) ''{}'' = Some (length A)"
proof (induction A rule: has_placeholder.induct)
  case (1 c d r)
  from "1.prems" have a: "\<not> (c = CHR ''{'' \<and> d = CHR ''}'')"
    and b: "\<not> has_placeholder (d # r)" by simp_all
  from "1.IH" [OF b]
  have IH: "find_str ((d # r) @ ''{}'' @ B) ''{}'' = Some (length (d # r))" .
  from a have "find_str ((c # d # r) @ ''{}'' @ B) ''{}'' =
      map_option Suc (find_str ((d # r) @ ''{}'' @ B) ''{}'')"
    by auto
  with IH show ?case by (simp del: find_str.simps)
qed simp_all

lemma find_str_bound: "find_str t pat = Some pos \<Longrightarrow> pos + length pat \<le> length t"
proof (induction t arbitrary: pos)
  case Nil
  then show ?case by (simp split: if_splits)
next
  case (Cons c cs)
  show ?case
  proof (cases "prefix pat (c # cs)")
    case True
    with Cons.prems show ?thesis by (auto dest: prefix_length_le)
  next
    case False
    with Cons.prems obtain q where "find_str cs pat = Some q" "pos = Suc q"
      by auto
    with Cons.IH show ?thesis by fastforce
  qed
qed

subsection \<open>The two branches of the two-argument overload\<close>

lemma format_arg_absent:
  "\<not> has_placeholder t \<Longrightarrow> format_arg text t v = Inr (t @ text v)"
  by (simp add: format_arg_def find_str_absent)

lemma format_arg_first:
  assumes "\<not> has_placeholder A"
  shows "format_arg text (A @ ''{}'' @ B) v = Inr (A @ text v @ B)"
proof -
  have "find_str (A @ ''{}'' @ B) ''{}'' = Some (length A)"
    by (rule find_str_first [OF assms])
  then show ?thesis
    by (simp add: format_arg_def replace_str_def)
qed

lemma format_arg_total: "\<exists>r. format_arg text t v = Inr r"
proof (cases "find_str t ''{}''")
  case None
  then show ?thesis by (simp add: format_arg_def)
next
  case (Some pos)
  from find_str_bound [OF this] have "pos \<le> length t" by simp
  with Some show ?thesis by (simp add: format_arg_def replace_str_def)
qed

subsection \<open>The decimal conversion\<close>

text \<open>
  \<open>digits\<close> is positional notation in base ten: reading the characters back, most
  significant first, gives the number again, and the numeral is never empty.
\<close>

lemma digit_char_value:
  "d < 10 \<Longrightarrow> of_char (''0123456789'' ! d) = (48::nat) + d"
proof -
  assume "d < 10"
  then have "d \<in> {0, 1, 2, 3, 4, 5, 6, 7, 8, 9}" by auto
  then show ?thesis by auto
qed

lemma digits_decimal:
  "foldl (\<lambda>a c. 10 * a + (of_char c - 48)) (0::nat) (digits n) = n"
proof (induction n rule: digits.induct)
  case (1 n)
  show ?case
  proof (cases "n < 10")
    case True
    then show ?thesis
      by (subst digits.simps) (simp add: digit_char_value)
  next
    case False
    with 1 have "foldl (\<lambda>a c. 10 * a + (of_char c - 48)) (0::nat) (digits (n div 10))
        = n div 10" by simp
    with False show ?thesis
      by (subst digits.simps) (simp add: digit_char_value)
  qed
qed

lemma digits_nonempty: "digits n \<noteq> []"
  by (subst digits.simps) simp

section \<open>The claims\<close>

text \<open>
  C1. For a template \<open>A{}B\<close> in which neither \<open>A\<close> nor \<open>B\<close> contains the placeholder, and
  for every value of a type with a textual conversion \<open>text\<close>, the two-argument overload
  returns \<open>A\<close>, then the text of the value, then \<open>B\<close>. For a signed integer the text is
  its decimal numeral (\<open>text_int\<close>) and for a string it is the string itself
  (\<open>text_string\<close>).
\<close>

theorem format_arg_single_placeholder:
  assumes "\<not> has_placeholder A" and "\<not> has_placeholder B"
  shows "format_arg text (A @ ''{}'' @ B) v = Inr (A @ text v @ B)
    \<and> format_arg text_int (A @ ''{}'' @ B) i = Inr (A @ text_int i @ B)
    \<and> format_arg text_string (A @ ''{}'' @ B) s = Inr (A @ s @ B)"
  using assms(1) by (simp only: format_arg_first text_string_def simp_thms)

theorem format_arg_single_placeholder_witness:
  "\<not> has_placeholder ''value: '' \<and> \<not> has_placeholder ''%''
   \<and> format_arg text_int ''value: {}%'' 42 = Inr ''value: 42%''
   \<and> format_arg text_int ''value: {}%'' (- 7) = Inr ''value: -7%''
   \<and> format_arg text_string ''value: {}%'' ''abc'' = Inr ''value: abc%''"
  using format_arg_single_placeholder [of "''value: ''" "''%''" text_int 42 "- 7" "''abc''"]
    format_arg_single_placeholder [of "''value: ''" "''%''" text_int "- 7" 42 "''abc''"]
  by (simp add: text_int_def digits.simps)

text \<open>
  C2. When the template contains the placeholder twice or more, the two-argument overload
  replaces the leftmost one only: the template splits as \<open>A{}B\<close> with no placeholder in
  \<open>A\<close>, every other occurrence lies in \<open>B\<close>, and the result is \<open>A\<close>, the text of the
  value and \<open>B\<close> as it was. In particular \<^verbatim>\<open>format("{}-{}", 5)\<close> is \<^verbatim>\<open>5-{}\<close>.
\<close>

theorem format_arg_first_only:
  "(2 \<le> occurrences t \<longrightarrow>
      (\<exists>A B. t = A @ ''{}'' @ B \<and> \<not> has_placeholder A
         \<and> Suc (occurrences B) = occurrences t
         \<and> format_arg text t v = Inr (A @ text v @ B)))
   \<and> format_arg text_int ''{}-{}'' 5 = Inr ''5-{}''"
proof (intro conjI impI)
  assume two: "2 \<le> occurrences t"
  then have "has_placeholder t"
    using occurrences_pos_iff [of t] by simp
  then obtain A B where t: "t = A @ ''{}'' @ B" and A: "\<not> has_placeholder A"
    using has_placeholder_split by blast
  from A have "Suc (occurrences B) = occurrences (A @ ''{}'' @ B)"
    by (rule occurrences_first [symmetric])
  moreover from A have "format_arg text (A @ ''{}'' @ B) v = Inr (A @ text v @ B)"
    by (rule format_arg_first)
  ultimately show "\<exists>A B. t = A @ ''{}'' @ B \<and> \<not> has_placeholder A
         \<and> Suc (occurrences B) = occurrences t
         \<and> format_arg text t v = Inr (A @ text v @ B)"
    using t A by blast
next
  show "format_arg text_int ''{}-{}'' 5 = Inr ''5-{}''"
    by (simp add: format_arg_def replace_str_def text_int_def digits.simps)
qed

theorem format_arg_first_only_witness:
  "2 \<le> occurrences ''{}-{}-{}''
   \<and> (\<exists>A B. ''{}-{}-{}'' = A @ ''{}'' @ B \<and> \<not> has_placeholder A
         \<and> Suc (occurrences B) = occurrences ''{}-{}-{}''
         \<and> format_arg text_int ''{}-{}-{}'' 1 = Inr (A @ text_int 1 @ B))"
proof -
  have h: "2 \<le> occurrences ''{}-{}-{}''" by simp
  from format_arg_first_only [of "''{}-{}-{}''" text_int 1] h
  show ?thesis by blast
qed

text \<open>
  C3. When the template contains no placeholder, the two-argument overload returns the
  template followed by the text of the value.
\<close>

theorem format_arg_no_placeholder:
  "\<not> has_placeholder t \<Longrightarrow> format_arg text t v = Inr (t @ text v)"
  by (rule format_arg_absent)

theorem format_arg_no_placeholder_witness:
  "\<not> has_placeholder ''no placeholder''
   \<and> format_arg text_int ''no placeholder'' 7 = Inr ''no placeholder7''"
  using format_arg_no_placeholder [of "''no placeholder''" text_int 7]
  by (simp add: text_int_def digits.simps)

text \<open>
  C4. The one-argument overload returns its template unchanged, whatever the template
  contains; a placeholder in it stays where it is.
\<close>

theorem format_unchanged: "format t = t"
  by (simp add: format_def)

text \<open>
  C5. The length of the result of the two-argument overload: the length of the template
  less two plus the length of the text when the template contains the placeholder, and
  the length of the template plus the length of the text when it does not.
\<close>

theorem format_arg_length:
  "\<exists>r. format_arg text t v = Inr r
     \<and> (if has_placeholder t
        then int (length r) = int (length t) - 2 + int (length (text v))
        else length r = length t + length (text v))"
proof (cases "has_placeholder t")
  case True
  then obtain A B where t: "t = A @ ''{}'' @ B" and A: "\<not> has_placeholder A"
    using has_placeholder_split by blast
  from A have "format_arg text (A @ ''{}'' @ B) v = Inr (A @ text v @ B)"
    by (rule format_arg_first)
  with True t show ?thesis by simp
next
  case False
  then show ?thesis by (simp add: format_arg_absent)
qed

theorem format_arg_length_witness:
  "has_placeholder ''{}%''
   \<and> (\<exists>r. format_arg text_int ''{}%'' 42 = Inr r
         \<and> int (length r) = int (length ''{}%'') - 2 + int (length (text_int 42)))
   \<and> \<not> has_placeholder ''no placeholder''
   \<and> (\<exists>r. format_arg text_int ''no placeholder'' 7 = Inr r
         \<and> length r = length ''no placeholder'' + length (text_int 7))"
proof -
  have h1: "has_placeholder ''{}%''" by simp
  have h2: "\<not> has_placeholder ''no placeholder''" by simp
  from format_arg_length [of text_int "''{}%''" 42] h1
  have a: "\<exists>r. format_arg text_int ''{}%'' 42 = Inr r
         \<and> int (length r) = int (length ''{}%'') - 2 + int (length (text_int 42))"
    by (simp only: if_True)
  from format_arg_length [of text_int "''no placeholder''" 7] h2
  have b: "\<exists>r. format_arg text_int ''no placeholder'' 7 = Inr r
         \<and> length r = length ''no placeholder'' + length (text_int 7)"
    by (simp only: if_False)
  from h1 h2 a b show ?thesis by blast
qed

text \<open>
  C6. Neither overload has an error outcome. The two-argument overload always returns a
  string: the position that \<^verbatim>\<open>find\<close> reports lies inside the template, so
  \<^verbatim>\<open>replace\<close> never throws \<^verbatim>\<open>out_of_range\<close>. The one-argument overload makes no
  call that can throw and returns a string for every template.
\<close>

theorem format_total:
  "(\<exists>r. format_arg text t v = Inr r) \<and> (\<forall>e. format_arg text t v \<noteq> Inl e)
   \<and> (\<exists>r. format t = r)"
  using format_arg_total [of "text" t v] by auto

text \<open>
  C7. Applying the one-argument overload to its own result changes nothing.
\<close>

theorem format_idempotent: "format (format t) = format t"
  by (simp add: format_def)

text \<open>
  C8. For the empty template the two-argument overload returns the text of the value.
\<close>

theorem format_arg_empty_template: "format_arg text [] v = Inr (text v)"
  by (simp add: format_arg_def)

text \<open>
  C9. The inserted text is not scanned again. When the first placeholder of the template
  splits it as \<open>A{}B\<close>, the result is \<open>A\<close>, the text and \<open>B\<close>, whatever the text and
  \<open>B\<close> contain; and when the text of the value is \<^verbatim>\<open>{}\<close> itself, the template
  \<^verbatim>\<open>{}\<close> gives \<^verbatim>\<open>{}\<close>.
\<close>

theorem format_arg_no_rescan:
  "(\<not> has_placeholder A \<longrightarrow>
      format_arg text (A @ ''{}'' @ B) v = Inr (A @ text v @ B))
   \<and> (text v = ''{}'' \<longrightarrow> format_arg text ''{}'' v = Inr ''{}'')"
proof (intro conjI impI)
  assume "\<not> has_placeholder A"
  then show "format_arg text (A @ ''{}'' @ B) v = Inr (A @ text v @ B)"
    by (rule format_arg_first)
next
  assume "text v = ''{}''"
  then show "format_arg text ''{}'' v = Inr ''{}''"
    by (simp add: format_arg_def replace_str_def)
qed

theorem format_arg_no_rescan_witness:
  "\<not> has_placeholder ''{'' \<and> has_placeholder (text_string ''{}'')
   \<and> format_arg text_string ''{{}}{}'' ''{}'' = Inr ''{{}}{}''
   \<and> text_string ''{}'' = ''{}''
   \<and> format_arg text_string ''{}'' ''{}'' = Inr ''{}''"
  using format_arg_no_rescan [of "''{''" text_string "''}{}''" "''{}''"]
  by (simp add: text_string_def)

text \<open>
  C10. Only \<^verbatim>\<open>{\<close> followed at once by \<^verbatim>\<open>}\<close> is the placeholder. When no position of
  the template holds \<^verbatim>\<open>{\<close> with \<^verbatim>\<open>}\<close> right after it, as in \<^verbatim>\<open>a{b}c\<close>, nothing is
  replaced, however many single braces the template has, and the text is appended.
\<close>

theorem format_arg_lone_braces:
  assumes "\<not> (\<exists>i. Suc i < length t \<and> t ! i = CHR ''{'' \<and> t ! Suc i = CHR ''}'')"
  shows "format_arg text t v = Inr (t @ text v)"
proof -
  from assms have "\<not> has_placeholder t"
    using has_placeholder_index [of t] by blast
  then show ?thesis by (rule format_arg_absent)
qed

theorem format_arg_lone_braces_witness:
  "CHR ''{'' \<in> set ''a{b}c'' \<and> CHR ''}'' \<in> set ''a{b}c''
   \<and> \<not> (\<exists>i. Suc i < length ''a{b}c''
           \<and> ''a{b}c'' ! i = CHR ''{'' \<and> ''a{b}c'' ! Suc i = CHR ''}'')
   \<and> format_arg text_int ''a{b}c'' 7 = Inr ''a{b}c7''"
proof -
  have "\<not> has_placeholder ''a{b}c''" by simp
  then have h: "\<not> (\<exists>i. Suc i < length ''a{b}c''
           \<and> ''a{b}c'' ! i = CHR ''{'' \<and> ''a{b}c'' ! Suc i = CHR ''}'')"
    using has_placeholder_index [of "''a{b}c''"] by blast
  have r: "format_arg text_int ''a{b}c'' 7 = Inr (''a{b}c'' @ text_int 7)"
    by (rule format_arg_lone_braces [OF h])
  have "text_int 7 = ''7''" by (simp add: text_int_def digits.simps)
  with r have "format_arg text_int ''a{b}c'' 7 = Inr ''a{b}c7''" by simp
  moreover have "CHR ''{'' \<in> set ''a{b}c'' \<and> CHR ''}'' \<in> set ''a{b}c''" by simp
  ultimately show ?thesis using h by blast
qed

end
